theory Spec2Isabelle
  imports Complex_Main
begin

section \<open>Obj2Seq prompt indicator: retention policy and output assembly\<close>

text \<open>
  A shallow embedding of \<^verbatim>\<open>src/models/transformer/prompt_indicator.py\<close>.

  Tensors are nested lists: a \<open>(B, C)\<close> tensor of probabilities or logits is a
  \<open>real list list\<close> with \<open>B\<close> rows of length \<open>C\<close>, a \<open>(B,)\<close> integer tensor is an
  \<open>int list\<close>. A floating-point value is the real number it denotes. What the tensor
  library computes and the source does not determine is a parameter of the model (the
  record \<open>paddle\<close>): the rounded sigmoid, and the order in which the library's sort leaves
  equal elements. Shapes are preconditions of the theorems (\<open>shape2\<close>): the elementwise
  operations of the library are modelled on equal shapes, where they are \<open>map\<close> and \<open>zip\<close>.
\<close>

subsection \<open>Errors\<close>

datatype py_error = KeyError | AssertionError | NameError | IndexError | TypeError | ValueError

subsection \<open>The tensor library\<close>

text \<open>
  \<open>F_sigmoid\<close> is \<^verbatim>\<open>F.sigmoid\<close> on one element, with whatever rounding and saturation
  the library has. \<open>argsort_ties lib row i\<close> is the rank that the library's sort gives to
  index \<open>i\<close> among the elements of \<open>row\<close> equal to element \<open>i\<close>.
\<close>

record paddle =
  F_sigmoid :: "real \<Rightarrow> real"
  argsort_ties :: "real list \<Rightarrow> nat \<Rightarrow> nat"

text \<open>The library of exact real arithmetic whose sort leaves equal elements in place.\<close>

definition exact_sigmoid :: "real \<Rightarrow> real" where
  "exact_sigmoid x = 1 / (1 + exp (- x))"

definition exact_paddle :: paddle where
  "exact_paddle = \<lparr>F_sigmoid = exact_sigmoid, argsort_ties = (\<lambda>row i. 0)\<rparr>"

text \<open>A Python integer as an element of a 64-bit integer tensor.\<close>

definition int64 :: "int \<Rightarrow> int" where
  "int64 x = (x + 2 ^ 63) mod 2 ^ 64 - 2 ^ 63"

subsection \<open>Configuration of the retention policy\<close>

text \<open>\<^verbatim>\<open>RetentionPolicy.__init__\<close>: the six scalars copied from the configuration node.\<close>

record retention_policy =
  train_min_classes :: int
  train_max_classes :: int
  train_class_thr :: real
  eval_min_classes :: int
  eval_max_classes :: int
  eval_class_thr :: real

subsection \<open>Tensor operations used by the policy\<close>

definition shape2 :: "nat \<Rightarrow> nat \<Rightarrow> 'a list list \<Rightarrow> bool" where
  "shape2 B C t \<longleftrightarrow> length t = B \<and> list_all (\<lambda>row. length row = C) t"

text \<open>\<^verbatim>\<open>paddle.where(force_sample_probs >= 0., force_sample_probs, label_prob)\<close>\<close>

definition where_forced :: "real list list \<Rightarrow> real list list \<Rightarrow> real list list" where
  "where_forced force_sample_probs label_prob =
     map2 (map2 (\<lambda>f p. if f \<ge> 0 then f else p)) force_sample_probs label_prob"

text \<open>\<^verbatim>\<open>x.clip(max=m)\<close> on an integer tensor, and \<^verbatim>\<open>x.clip(min=lo, max=hi)\<close>,
  which raises when the minimum is above the maximum and is \<open>min (max x lo) hi\<close>
  otherwise. The scalars are read as 64-bit integers.\<close>

definition clip_max :: "int list \<Rightarrow> int \<Rightarrow> int list" where
  "clip_max xs m = map (\<lambda>x. min x (int64 m)) xs"

definition clip :: "int list \<Rightarrow> int \<Rightarrow> int \<Rightarrow> py_error + int list" where
  "clip xs lo hi =
     (if int64 lo > int64 hi then Inl ValueError
      else Inr (map (\<lambda>x. min (max x (int64 lo)) (int64 hi)) xs))"

text \<open>\<^verbatim>\<open>(label_prob >= class_thr).sum(axis=1)\<close>\<close>

definition num_above_thr :: "real list list \<Rightarrow> real \<Rightarrow> int list" where
  "num_above_thr label_prob class_thr =
     map (\<lambda>row. int (length (filter (\<lambda>p. p \<ge> class_thr) row))) label_prob"

text \<open>\<^verbatim>\<open>paddle.where(cond, x, y)\<close> on three \<open>(B,)\<close> integer tensors, the condition
  being a comparison of two of them.\<close>

definition where_gt :: "int list \<Rightarrow> int list \<Rightarrow> int list \<Rightarrow> int list \<Rightarrow> int list" where
  "where_gt a b x y = map (\<lambda>((a, b), (x, y)). if a > b then x else y) (zip (zip a b) (zip x y))"

definition where_lt :: "int list \<Rightarrow> int list \<Rightarrow> int list \<Rightarrow> int list \<Rightarrow> int list" where
  "where_lt a b x y = map (\<lambda>((a, b), (x, y)). if a < b then x else y) (zip (zip a b) (zip x y))"

text \<open>
  \<^verbatim>\<open>row.argsort(descending=True)\<close>: the class indices ordered by decreasing
  probability. The call passes no \<^verbatim>\<open>stable\<close> flag, so the order of classes with equal
  probabilities is the library's: they come in the order of their ranks \<open>argsort_ties\<close>
  (and in index order where those are equal too). Every arrangement of the indices by
  decreasing probability is the result for some ranking (\<open>argsort_descending_any\<close> below).
\<close>

definition argsort_descending :: "paddle \<Rightarrow> real list \<Rightarrow> nat list" where
  "argsort_descending lib row =
     sort_key (\<lambda>i. - (row ! i)) (sort_key (argsort_ties lib row) [0..<length row])"

text \<open>Python's \<^verbatim>\<open>xs[:n]\<close>: a negative \<open>n\<close> counts from the end, and the slice
  is cut at the ends of the list.\<close>

definition slice_to :: "'a list \<Rightarrow> int \<Rightarrow> 'a list" where
  "slice_to xs n = (if n \<ge> 0 then take (nat n) xs else take (nat (int (length xs) + n)) xs)"

subsection \<open>\<^verbatim>\<open>RetentionPolicy.forward\<close>\<close>

text \<open>Lines 33 to 36: the probabilities the policy works with.\<close>

definition label_prob ::
  "paddle \<Rightarrow> bool \<Rightarrow> real list list \<Rightarrow> real list list option \<Rightarrow> real list list" where
  "label_prob lib training label_logits force_sample_probs =
     (let p = map (map (F_sigmoid lib)) label_logits in
      if training then
        (case force_sample_probs of
           Some f \<Rightarrow> where_forced f p
         | None \<Rightarrow> p)
      else p)"

text \<open>Lines 37 to 43: the bounds are a tensor when \<open>num_classes\<close> is given and the
  configured scalar otherwise.\<close>

datatype bound = Scalar int | Tensor "int list"

definition min_classes :: "retention_policy \<Rightarrow> bool \<Rightarrow> int list option \<Rightarrow> bound" where
  "min_classes self training num_classes =
     (if training then
        (case num_classes of
           Some nc \<Rightarrow> Tensor (clip_max nc (train_min_classes self))
         | None \<Rightarrow> Scalar (train_min_classes self))
      else
        (case num_classes of
           Some nc \<Rightarrow> Tensor (clip_max nc (eval_min_classes self))
         | None \<Rightarrow> Scalar (eval_min_classes self)))"

definition max_classes :: "retention_policy \<Rightarrow> bool \<Rightarrow> int list option \<Rightarrow> bound" where
  "max_classes self training num_classes =
     (if training then
        (case num_classes of
           Some nc \<Rightarrow> Tensor (clip_max nc (train_max_classes self))
         | None \<Rightarrow> Scalar (train_max_classes self))
      else
        (case num_classes of
           Some nc \<Rightarrow> Tensor (clip_max nc (eval_max_classes self))
         | None \<Rightarrow> Scalar (eval_max_classes self)))"

definition class_thr :: "retention_policy \<Rightarrow> bool \<Rightarrow> real" where
  "class_thr self training = (if training then train_class_thr self else eval_class_thr self)"

text \<open>Lines 45 to 50. Both bounds come from the same \<open>num_classes\<close>, so they are
  tensors together or scalars together; the test of the source looks at the minimum.\<close>

fun num_train :: "bound \<Rightarrow> bound \<Rightarrow> int list \<Rightarrow> py_error + int list" where
  "num_train (Tensor mn) (Tensor mx) cnt =
     (let t = where_gt cnt mn cnt mn
      in Inr (where_lt cnt mx t mx))"
| "num_train (Tensor mn) (Scalar mx) cnt =
     (let t = where_gt cnt mn cnt mn
      in Inr (where_lt cnt (replicate (length cnt) (int64 mx)) t
                (replicate (length cnt) (int64 mx))))"
| "num_train (Scalar mn) (Tensor mx) cnt =
     Inr (map (\<lambda>(a, m). min (max a (int64 mn)) m) (zip cnt mx))"
| "num_train (Scalar mn) (Scalar mx) cnt = clip cnt mn mx"

text \<open>The retain counts \<open>k\<^sub>b\<close> (the tensor \<^verbatim>\<open>num_train\<close> of the source), when line 50
  does not raise.\<close>

definition retain_counts ::
  "paddle \<Rightarrow> retention_policy \<Rightarrow> bool \<Rightarrow> real list list \<Rightarrow> real list list option
     \<Rightarrow> int list option \<Rightarrow> py_error + int list" where
  "retain_counts lib self training label_logits force_sample_probs num_classes =
     num_train (min_classes self training num_classes) (max_classes self training num_classes)
       (num_above_thr (label_prob lib training label_logits force_sample_probs)
          (class_thr self training))"

text \<open>The per-image bounds \<open>min\<^sub>b\<close> and \<open>max\<^sub>b\<close> read off a bound, as the tensor
  operations read them.\<close>

fun bound_at :: "bound \<Rightarrow> nat \<Rightarrow> int" where
  "bound_at (Scalar m) b = int64 m"
| "bound_at (Tensor ms) b = ms ! b"

text \<open>Lines 52 to 56: the loop over \<^verbatim>\<open>enumerate(sorted_idxs)\<close>, with the two lists
  it appends to.\<close>

fun select_loop ::
  "(nat \<times> nat list) list \<Rightarrow> int list \<Rightarrow> nat list list \<times> nat list list
     \<Rightarrow> nat list list \<times> nat list list" where
  "select_loop [] counts acc = acc"
| "select_loop ((id_b, sorted_idx) # rest) counts (bs_idx, cls_idx) =
     (let n_train = counts ! id_b;
          c = sort (slice_to sorted_idx n_train)
      in select_loop rest counts (bs_idx @ [replicate (length c) id_b], cls_idx @ [c]))"

text \<open>Lines 33 to 56: the lists \<^verbatim>\<open>bs_idx\<close> and \<^verbatim>\<open>cls_idx\<close> when the loop has
  ended. The retain counts are computed, and may raise, before the classes are sorted.\<close>

definition selected ::
  "paddle \<Rightarrow> retention_policy \<Rightarrow> bool \<Rightarrow> real list list \<Rightarrow> real list list option
     \<Rightarrow> int list option \<Rightarrow> py_error + (nat list list \<times> nat list list)" where
  "selected lib self training label_logits force_sample_probs num_classes =
     (let p = label_prob lib training label_logits force_sample_probs in
      case retain_counts lib self training label_logits force_sample_probs num_classes of
        Inl e \<Rightarrow> Inl e
      | Inr counts \<Rightarrow>
          (let sorted_idxs = map (argsort_descending lib) p
           in Inr (select_loop (zip [0..<length sorted_idxs] sorted_idxs) counts ([], []))))"

text \<open>Line 57: \<^verbatim>\<open>paddle.concat\<close> refuses an empty list of tensors, which is what the
  loop leaves for an empty batch.\<close>

definition paddle_concat :: "'a list list \<Rightarrow> py_error + 'a list" where
  "paddle_concat ts = (if ts = [] then Inl ValueError else Inr (concat ts))"

definition forward ::
  "paddle \<Rightarrow> retention_policy \<Rightarrow> bool \<Rightarrow> real list list \<Rightarrow> real list list option
     \<Rightarrow> int list option \<Rightarrow> py_error + (nat list \<times> nat list)" where
  "forward lib self training label_logits force_sample_probs num_classes =
     (case selected lib self training label_logits force_sample_probs num_classes of
        Inl e \<Rightarrow> Inl e
      | Inr (bs_idx, cls_idx) \<Rightarrow>
          (case paddle_concat bs_idx of
             Inl e \<Rightarrow> Inl e
           | Inr b \<Rightarrow> (case paddle_concat cls_idx of Inl e \<Rightarrow> Inl e | Inr c \<Rightarrow> Inr (b, c))))"

text \<open>The configured scalar bounds of the current mode, before any clipping, as the tensor
  operations read them.\<close>

definition conf_min :: "retention_policy \<Rightarrow> bool \<Rightarrow> int" where
  "conf_min self training =
     int64 (if training then train_min_classes self else eval_min_classes self)"

definition conf_max :: "retention_policy \<Rightarrow> bool \<Rightarrow> int" where
  "conf_max self training =
     int64 (if training then train_max_classes self else eval_max_classes self)"

text \<open>What one pass of the loop body appends to \<^verbatim>\<open>cls_idx\<close>.\<close>

definition image_classes :: "int list \<Rightarrow> nat \<times> nat list \<Rightarrow> nat list" where
  "image_classes counts = (\<lambda>(id_b, sorted_idx). sort (slice_to sorted_idx (counts ! id_b)))"

text \<open>The two lists of per-image tensors that the loop has built when it ends (empty when
  the call has raised before the loop).\<close>

definition bs_idx ::
  "paddle \<Rightarrow> retention_policy \<Rightarrow> bool \<Rightarrow> real list list \<Rightarrow> real list list option
     \<Rightarrow> int list option \<Rightarrow> nat list list" where
  "bs_idx lib self training label_logits force_sample_probs num_classes =
     (case selected lib self training label_logits force_sample_probs num_classes of
        Inl e \<Rightarrow> []
      | Inr s \<Rightarrow> fst s)"

definition cls_idx ::
  "paddle \<Rightarrow> retention_policy \<Rightarrow> bool \<Rightarrow> real list list \<Rightarrow> real list list option
     \<Rightarrow> int list option \<Rightarrow> nat list list" where
  "cls_idx lib self training label_logits force_sample_probs num_classes =
     (case selected lib self training label_logits force_sample_probs num_classes of
        Inl e \<Rightarrow> []
      | Inr s \<Rightarrow> snd s)"

subsection \<open>\<^verbatim>\<open>PromptIndicator._init_class_prompts\<close>\<close>

text \<open>
  The configuration node \<^verbatim>\<open>CLASS_PROMPTS\<close>. \<^verbatim>\<open>init_vectors\<close> is a path or
  nothing; Python takes \<^verbatim>\<open>None\<close> and the empty string for false.
\<close>

record class_prompts_args =
  cp_init_vectors :: "string option"
  cp_fix_class_prompts :: bool
  cp_num_classes :: nat

text \<open>An array with its shape, which an array without rows still has.\<close>

record ndarray =
  nd_shape :: "nat list"
  nd_rows :: "real list list"

text \<open>What the constructor leaves on the object: the vectors, whether they are a trainable
  parameter (or a fixed buffer), and whether a projection to the model dimension was built.\<close>

record class_prompt_store =
  class_prompts :: ndarray
  trainable :: bool
  convert_vector :: bool

definition truthy :: "string option \<Rightarrow> bool" where
  "truthy s = (case s of None \<Rightarrow> False | Some v \<Rightarrow> v \<noteq> [])"

text \<open>\<^verbatim>\<open>s[-3:]\<close>\<close>

definition last3 :: "string \<Rightarrow> string" where
  "last3 s = drop (length s - 3) s"

text \<open>\<^verbatim>\<open>t.shape[1]\<close> of a loaded array.\<close>

definition shape1 :: "ndarray \<Rightarrow> py_error + nat" where
  "shape1 t = (case nd_shape t of d0 # d1 # _ \<Rightarrow> Inr d1 | _ \<Rightarrow> Inl IndexError)"

text \<open>
  Lines 85 to 113. The file system and the random initialiser are parameters:
  \<open>np_load\<close> is \<^verbatim>\<open>np.load\<close> followed by the conversion to a tensor, \<open>normal\<close> the
  sample that \<^verbatim>\<open>nn.init.normal_\<close> writes into a \<open>num_classes \<times> d_model\<close> array of
  zeros. The module imports \<^verbatim>\<open>paddle\<close>, \<^verbatim>\<open>nn\<close>, \<^verbatim>\<open>F\<close> and \<^verbatim>\<open>np\<close>
  only, so the name \<^verbatim>\<open>torch\<close> of line 89 is unbound when the line runs.
\<close>

definition init_class_prompts ::
  "(string \<Rightarrow> py_error + ndarray) \<Rightarrow> (nat \<Rightarrow> nat \<Rightarrow> real list list) \<Rightarrow> nat
     \<Rightarrow> class_prompts_args \<Rightarrow> py_error + class_prompt_store" where
  "init_class_prompts np_load normal d_model args =
     (if truthy (cp_init_vectors args) then
        (let path = the (cp_init_vectors args) in
         case (if last3 path = ''pth'' then Inl NameError
               else if last3 path = ''npy'' then np_load path
               else Inl KeyError) of
           Inl e \<Rightarrow> Inl e
         | Inr loaded \<Rightarrow>
             (case shape1 loaded of
                Inl e \<Rightarrow> Inl e
              | Inr d_in \<Rightarrow>
                  Inr \<lparr>class_prompts = loaded, trainable = \<not> cp_fix_class_prompts args,
                       convert_vector = (d_in \<noteq> d_model)\<rparr>))
      else
        (if cp_fix_class_prompts args \<noteq> False then Inl AssertionError
         else
           Inr \<lparr>class_prompts =
                  \<lparr>nd_shape = [cp_num_classes args, d_model],
                   nd_rows = normal (cp_num_classes args) d_model\<rparr>,
                trainable = True, convert_vector = False\<rparr>))"

subsection \<open>\<^verbatim>\<open>PromptIndicator.forward\<close>\<close>

text \<open>Python's \<^verbatim>\<open>xs[i]\<close> on a list: an index below zero is read from the end.\<close>

definition py_index :: "'a list \<Rightarrow> int \<Rightarrow> py_error + 'a" where
  "py_index xs i =
     (if 0 \<le> i \<and> i < int (length xs) then Inr (xs ! nat i)
      else if i < 0 \<and> - int (length xs) \<le> i then Inr (xs ! nat (int (length xs) + i))
      else Inl IndexError)"

text \<open>A target record is a dictionary; the two keys the indicator reads may be absent.\<close>

record target =
  t_force_sample_probs :: "real list option"
  t_num_classes :: "int list option"

text \<open>The dictionary \<^verbatim>\<open>outputs\<close>; the keys \<^verbatim>\<open>bs_idx\<close> and \<^verbatim>\<open>cls_idx\<close> exist
  only when classes were selected.\<close>

record 't outputs =
  out_tgt_class :: 't
  out_cls_label_logits :: "real list list"
  out_cls_output_feats :: 't
  out_bs_idx :: "nat list option"
  out_cls_idx :: "nat list option"

text \<open>
  The indicator and its collaborators, which are outside this file and stay abstract:
  \<open>'t\<close> is the type of prompt states, \<open>'s\<close> the features with their mask and keyword
  arguments, \<open>'l\<close> the loss terms. \<open>pi_select_levels\<close> stands for the slicing of the
  feature levels (lines 122 to 136), \<open>pi_tile\<close> for the class prompts, projected and tiled
  over the batch (lines 139 to 144), \<open>pi_classifier_label\<close> for the one classifier that
  the constructor puts at every layer index, with the reshape to \<open>(B, C)\<close>, and
  \<open>pi_gather\<close> for the indexing \<^verbatim>\<open>tgt_class[bs_idxs, cls_idxs]\<close>.
\<close>

record ('t, 's, 'l) prompt_indicator =
  pi_training :: bool
  pi_select_levels :: "'s \<Rightarrow> py_error + 's"
  pi_tile :: "'s \<Rightarrow> 't"
  pi_prompt_blocks :: "('t \<Rightarrow> 's \<Rightarrow> 't) list"
  pi_classifier_label :: "'t \<Rightarrow> 't \<Rightarrow> real list list"
  pi_retention_policy :: "retention_policy option"
  pi_gather :: "'t \<Rightarrow> nat list \<Rightarrow> nat list \<Rightarrow> 't"
  pi_criterion :: "'t outputs \<Rightarrow> real list list list \<Rightarrow> target list \<Rightarrow> 'l"

text \<open>Lines 147 to 154: the loop over the layers. The local \<^verbatim>\<open>label_logits\<close> is
  unbound until the first pass.\<close>

fun refine_loop ::
  "('t \<Rightarrow> 's \<Rightarrow> 't) list \<Rightarrow> ('t \<Rightarrow> 't \<Rightarrow> real list list) \<Rightarrow> 's \<Rightarrow> 't
     \<Rightarrow> 't \<times> real list list option \<times> real list list list \<times> 't list
     \<Rightarrow> 't \<times> real list list option \<times> real list list list \<times> 't list" where
  "refine_loop [] classifier srcs origin_class_vector st = st"
| "refine_loop (layer # rest) classifier srcs origin_class_vector
       (tgt_class, label_logits, output_label_logits, output_feats) =
     (let tgt_class' = layer tgt_class srcs;
          label_logits' = classifier tgt_class' origin_class_vector
      in refine_loop rest classifier srcs origin_class_vector
           (tgt_class', Some label_logits', output_label_logits @ [label_logits'],
            output_feats @ [tgt_class']))"

definition refine ::
  "('t, 's, 'l) prompt_indicator \<Rightarrow> 's
     \<Rightarrow> 't \<times> real list list option \<times> real list list list \<times> 't list" where
  "refine self srcs =
     refine_loop (pi_prompt_blocks self) (pi_classifier_label self) srcs (pi_tile self srcs)
       (pi_tile self srcs, None, [], [])"

text \<open>\<^verbatim>\<open>paddle.stack\<close>, like \<^verbatim>\<open>paddle.concat\<close>, refuses an empty list.\<close>

definition paddle_stack :: "'a list \<Rightarrow> py_error + 'a list" where
  "paddle_stack ts = (if ts = [] then Inl ValueError else Inr ts)"

text \<open>\<^verbatim>\<open>[t[key] for t in targets]\<close>\<close>

definition lookup_all :: "(target \<Rightarrow> 'a option) \<Rightarrow> target list \<Rightarrow> py_error + 'a list" where
  "lookup_all key targets =
     (case those (map key targets) of None \<Rightarrow> Inl KeyError | Some vs \<Rightarrow> Inr vs)"

text \<open>Lines 166 and 167.\<close>

definition stack_force_sample_probs ::
  "bool \<Rightarrow> target list \<Rightarrow> py_error + real list list option" where
  "stack_force_sample_probs training targets =
     (if training then
        (case lookup_all t_force_sample_probs targets of
           Inl e \<Rightarrow> Inl e
         | Inr fs \<Rightarrow> (case paddle_stack fs of Inl e \<Rightarrow> Inl e | Inr f \<Rightarrow> Inr (Some f)))
      else Inr None)"

definition concat_num_classes :: "target list \<Rightarrow> py_error + int list" where
  "concat_num_classes targets =
     (case lookup_all t_num_classes targets of
        Inl e \<Rightarrow> Inl e
      | Inr ns \<Rightarrow> paddle_concat ns)"

text \<open>Lines 164 to 174. Iterating over \<^verbatim>\<open>targets\<close> when it is \<^verbatim>\<open>None\<close> is a
  type error.\<close>

definition select_classes ::
  "paddle \<Rightarrow> ('t, 's, 'l) prompt_indicator \<Rightarrow> target list option \<Rightarrow> 't
     \<Rightarrow> real list list option \<Rightarrow> 't outputs \<Rightarrow> py_error + 't outputs" where
  "select_classes lib self targets tgt_class label_logits outputs =
     (case pi_retention_policy self of
        None \<Rightarrow> Inr outputs
      | Some policy \<Rightarrow>
          (case targets of
             None \<Rightarrow> Inl TypeError
           | Some ts \<Rightarrow>
               (case stack_force_sample_probs (pi_training self) ts of
                  Inl e \<Rightarrow> Inl e
                | Inr force_sample_probs \<Rightarrow>
                    (case concat_num_classes ts of
                       Inl e \<Rightarrow> Inl e
                     | Inr num_classes \<Rightarrow>
                         (case label_logits of
                            None \<Rightarrow> Inl NameError
                          | Some logits \<Rightarrow>
                              (case forward lib policy (pi_training self) logits
                                      force_sample_probs (Some num_classes) of
                                 Inl e \<Rightarrow> Inl e
                               | Inr (bs_idxs, cls_idxs) \<Rightarrow>
                                   Inr (outputs\<lparr>out_bs_idx := Some bs_idxs,
                                                 out_cls_idx := Some cls_idxs,
                                                 out_tgt_class :=
                                                   pi_gather self tgt_class bs_idxs cls_idxs\<rparr>)))))))"

text \<open>Lines 176 to 180.\<close>

definition aux_outputs :: "real list list list \<Rightarrow> real list list list" where
  "aux_outputs output_label_logits =
     (if length output_label_logits > 1 then butlast output_label_logits else [])"

text \<open>The whole call. The criterion is called last, behind the assertion on the targets.\<close>

definition pi_forward ::
  "paddle \<Rightarrow> ('t, 's, 'l) prompt_indicator \<Rightarrow> 's \<Rightarrow> target list option
     \<Rightarrow> py_error + ('t outputs \<times> 'l)" where
  "pi_forward lib self srcs targets =
     (case pi_select_levels self srcs of
        Inl e \<Rightarrow> Inl e
      | Inr srcs' \<Rightarrow>
          (case refine self srcs' of
             (tgt_class, label_logits, output_label_logits, output_feats) \<Rightarrow>
               (case py_index output_label_logits (- 2) of
                  Inl e \<Rightarrow> Inl e
                | Inr main \<Rightarrow>
                    (let outputs = \<lparr>out_tgt_class = tgt_class, out_cls_label_logits = main,
                                     out_cls_output_feats = tgt_class, out_bs_idx = None,
                                     out_cls_idx = None\<rparr>
                     in case select_classes lib self targets tgt_class label_logits outputs of
                          Inl e \<Rightarrow> Inl e
                        | Inr outputs' \<Rightarrow>
                            (case targets of
                               None \<Rightarrow> Inl AssertionError
                             | Some ts \<Rightarrow>
                                 Inr (outputs',
                                      pi_criterion self outputs'
                                        (aux_outputs output_label_logits) ts))))))"

subsection \<open>Concrete inputs\<close>

text \<open>The configuration of the end-to-end scenario: threshold 0.5, at least one class and
  at most three, in both modes.\<close>

definition scenario_policy :: retention_policy where
  "scenario_policy =
     \<lparr>train_min_classes = 1, train_max_classes = 3, train_class_thr = 1/2,
      eval_min_classes = 1, eval_max_classes = 3, eval_class_thr = 1/2\<rparr>"

text \<open>A configuration whose minimum is above its maximum.\<close>

definition inverted_policy :: retention_policy where
  "inverted_policy =
     \<lparr>train_min_classes = 3, train_max_classes = 1, train_class_thr = 1/2,
      eval_min_classes = 3, eval_max_classes = 1, eval_class_thr = 1/2\<rparr>"

text \<open>A configuration that asks for three classes per image, one that asks for none, and
  one that asks for two.\<close>

definition wide_policy :: retention_policy where
  "wide_policy =
     \<lparr>train_min_classes = 3, train_max_classes = 3, train_class_thr = 1/2,
      eval_min_classes = 3, eval_max_classes = 3, eval_class_thr = 1/2\<rparr>"

definition empty_policy :: retention_policy where
  "empty_policy =
     \<lparr>train_min_classes = 0, train_max_classes = 0, train_class_thr = 1/2,
      eval_min_classes = 0, eval_max_classes = 0, eval_class_thr = 1/2\<rparr>"

definition full_policy :: retention_policy where
  "full_policy =
     \<lparr>train_min_classes = 2, train_max_classes = 2, train_class_thr = 1/2,
      eval_min_classes = 2, eval_max_classes = 2, eval_class_thr = 1/2\<rparr>"





text \<open>
  An indicator with two layers, one image and two classes, in evaluation mode, that keeps
  one class per image. Its prompt state counts the layers passed; the classifier prefers
  class 0 after the first layer and class 1 after the second; its criterion hands back the
  auxiliary outputs it was given, so that they can be read off the result.
\<close>

definition top1_policy :: retention_policy where
  "top1_policy =
     \<lparr>train_min_classes = 1, train_max_classes = 1, train_class_thr = 1/2,
      eval_min_classes = 1, eval_max_classes = 1, eval_class_thr = 1/2\<rparr>"

definition two_layer_indicator :: "(nat, unit, real list list list) prompt_indicator" where
  "two_layer_indicator =
     \<lparr>pi_training = False,
      pi_select_levels = (\<lambda>s. Inr s),
      pi_tile = (\<lambda>s. 0),
      pi_prompt_blocks = [\<lambda>t s. Suc t, \<lambda>t s. Suc t],
      pi_classifier_label = (\<lambda>t origin. if t = 1 then [[ln 9, 0]] else [[0, ln 9]]),
      pi_retention_policy = Some top1_policy,
      pi_gather = (\<lambda>t bs cs. t),
      pi_criterion = (\<lambda>outs aux ts. aux)\<rparr>"

definition two_layer_targets :: "target list" where
  "two_layer_targets = [\<lparr>t_force_sample_probs = None, t_num_classes = Some [2]\<rparr>]"

section \<open>Properties\<close>

subsection \<open>Shapes and lengths\<close>

lemma int64_id: "- (2 ^ 63) \<le> x \<Longrightarrow> x < 2 ^ 63 \<Longrightarrow> int64 x = x"
  by (simp add: int64_def)

lemma int64_small [simp]: "int64 0 = 0" "int64 1 = 1" "int64 2 = 2" "int64 3 = 3"
  by (simp_all add: int64_def)

lemma length_label_prob:
  assumes "length label_logits = B"
      and "\<forall>f. force_sample_probs = Some f \<longrightarrow> length f = B"
  shows "length (label_prob lib training label_logits force_sample_probs) = B"
  using assms by (auto simp: label_prob_def Let_def where_forced_def split: option.splits)

lemma label_prob_row_length:
  assumes "shape2 B C label_logits"
      and "\<forall>f. force_sample_probs = Some f \<longrightarrow> shape2 B C f"
      and "b < B"
  shows "length (label_prob lib training label_logits force_sample_probs ! b) = C"
  using assms
  by (auto simp: label_prob_def Let_def where_forced_def shape2_def list_all_length
      split: option.splits)

lemma length_num_above_thr [simp]: "length (num_above_thr p thr) = length p"
  by (simp add: num_above_thr_def)

lemma min_classes_conf:
  "min_classes self training num_classes =
     (case num_classes of
        Some nc \<Rightarrow> Tensor (map (\<lambda>x. min x (conf_min self training)) nc)
      | None \<Rightarrow> Scalar (if training then train_min_classes self else eval_min_classes self))"
  by (simp add: min_classes_def conf_min_def clip_max_def split: option.splits)

lemma max_classes_conf:
  "max_classes self training num_classes =
     (case num_classes of
        Some nc \<Rightarrow> Tensor (map (\<lambda>x. min x (conf_max self training)) nc)
      | None \<Rightarrow> Scalar (if training then train_max_classes self else eval_max_classes self))"
  by (simp add: max_classes_def conf_max_def clip_max_def split: option.splits)

lemma bound_at_min_classes:
  assumes "\<forall>nc. num_classes = Some nc \<longrightarrow> b < length nc"
  shows "bound_at (min_classes self training num_classes) b =
           (case num_classes of
              None \<Rightarrow> conf_min self training
            | Some nc \<Rightarrow> min (nc ! b) (conf_min self training))"
  using assms by (cases num_classes) (simp_all add: min_classes_conf conf_min_def)

lemma bound_at_max_classes:
  assumes "\<forall>nc. num_classes = Some nc \<longrightarrow> b < length nc"
  shows "bound_at (max_classes self training num_classes) b =
           (case num_classes of
              None \<Rightarrow> conf_max self training
            | Some nc \<Rightarrow> min (nc ! b) (conf_max self training))"
  using assms by (cases num_classes) (simp_all add: max_classes_conf conf_max_def)

text \<open>Line 50 raises exactly when there is no \<open>num_classes\<close> and the configured minimum is
  above the configured maximum.\<close>

lemma retain_counts_raises:
  "(\<exists>e. retain_counts lib self training label_logits force_sample_probs num_classes = Inl e)
     \<longleftrightarrow> num_classes = None \<and> conf_max self training < conf_min self training"
  by (cases num_classes)
     (auto simp: retain_counts_def min_classes_conf max_classes_conf clip_def conf_min_def
        conf_max_def Let_def)

text \<open>The retain count of one image, as a function of its count above the threshold.\<close>

lemma retain_counts_nth:
  assumes "retain_counts lib self training label_logits force_sample_probs num_classes = Inr ks"
      and "length label_logits = B"
      and "\<forall>f. force_sample_probs = Some f \<longrightarrow> length f = B"
      and "\<forall>nc. num_classes = Some nc \<longrightarrow> length nc = B"
  shows "length ks = B"
    and "b < B \<Longrightarrow> ks ! b =
     (let a = num_above_thr (label_prob lib training label_logits force_sample_probs)
                (class_thr self training) ! b in
      case num_classes of
        None \<Rightarrow> min (max a (conf_min self training)) (conf_max self training)
      | Some nc \<Rightarrow>
          (let mn = min (nc ! b) (conf_min self training);
               mx = min (nc ! b) (conf_max self training)
           in if a < mx then (if a > mn then a else mn) else mx))"
  using length_label_prob[OF assms(2,3), of lib training] assms(1,4)
  by (cases num_classes;
      auto simp: retain_counts_def min_classes_conf max_classes_conf clip_def
        where_gt_def where_lt_def Let_def conf_min_def conf_max_def split: if_splits)+

lemma exact_sigmoid_zero [simp]: "exact_sigmoid 0 = 1 / 2"
  by (simp add: exact_sigmoid_def)

lemma exact_sigmoid_ln: "0 < x \<Longrightarrow> exact_sigmoid (ln x) = x / (1 + x)"
  by (simp add: exact_sigmoid_def exp_minus field_simps)

lemma exact_paddle_simps [simp]:
  "F_sigmoid exact_paddle = exact_sigmoid" "argsort_ties exact_paddle = (\<lambda>row i. 0)"
  by (simp_all add: exact_paddle_def)

subsection \<open>The selection loop\<close>

lemma select_loop_map:
  "select_loop ps ks (bs, cs) =
     (bs @ map (\<lambda>p. replicate (length (image_classes ks p)) (fst p)) ps,
      cs @ map (image_classes ks) ps)"
  by (induction ps arbitrary: bs cs) (auto simp: image_classes_def Let_def)

lemma selected_eq:
  "selected lib self training label_logits force_sample_probs num_classes =
     (case retain_counts lib self training label_logits force_sample_probs num_classes of
        Inl e \<Rightarrow> Inl e
      | Inr ks \<Rightarrow>
          (let p = label_prob lib training label_logits force_sample_probs;
               ps = zip [0..<length p] (map (argsort_descending lib) p)
           in Inr (map (\<lambda>p. replicate (length (image_classes ks p)) (fst p)) ps,
                   map (image_classes ks) ps)))"
  by (simp add: selected_def Let_def select_loop_map split: sum.splits)

lemma length_idx:
  assumes "retain_counts lib self training label_logits force_sample_probs num_classes = Inr ks"
      and "length (label_prob lib training label_logits force_sample_probs) = B"
  shows "length (bs_idx lib self training label_logits force_sample_probs num_classes) = B"
    and "length (cls_idx lib self training label_logits force_sample_probs num_classes) = B"
  using assms by (simp_all add: bs_idx_def cls_idx_def selected_eq Let_def)

lemma cls_idx_nth:
  assumes "retain_counts lib self training label_logits force_sample_probs num_classes = Inr ks"
      and "length (label_prob lib training label_logits force_sample_probs) = B" "b < B"
  shows "cls_idx lib self training label_logits force_sample_probs num_classes ! b =
           sort (slice_to
                  (argsort_descending lib
                     (label_prob lib training label_logits force_sample_probs ! b))
                  (ks ! b))"
  using assms by (simp add: cls_idx_def selected_eq Let_def image_classes_def)

lemma bs_idx_nth:
  assumes "retain_counts lib self training label_logits force_sample_probs num_classes = Inr ks"
      and "length (label_prob lib training label_logits force_sample_probs) = B" "b < B"
  shows "bs_idx lib self training label_logits force_sample_probs num_classes ! b =
           replicate
             (length (cls_idx lib self training label_logits force_sample_probs num_classes ! b)) b"
  using assms by (simp add: bs_idx_def cls_idx_def selected_eq Let_def image_classes_def)

text \<open>When the call returns, and what it returns then.\<close>

lemma forward_eq:
  assumes "retain_counts lib self training label_logits force_sample_probs num_classes = Inr ks"
      and "label_logits \<noteq> []"
      and "\<forall>f. force_sample_probs = Some f \<longrightarrow> length f = length label_logits"
  shows "forward lib self training label_logits force_sample_probs num_classes =
           Inr (concat (bs_idx lib self training label_logits force_sample_probs num_classes),
                concat (cls_idx lib self training label_logits force_sample_probs num_classes))"
proof -
  have "length (label_prob lib training label_logits force_sample_probs) = length label_logits"
    using assms(3) by (rule length_label_prob[OF refl])
  with assms(2) have "label_prob lib training label_logits force_sample_probs \<noteq> []" by auto
  then show ?thesis
    by (simp add: forward_def bs_idx_def cls_idx_def selected_eq assms(1) Let_def
        paddle_concat_def)
qed

lemma forward_returnsD:
  assumes "forward lib self training label_logits force_sample_probs num_classes = Inr r"
      and "\<forall>f. force_sample_probs = Some f \<longrightarrow> length f = length label_logits"
  shows "\<exists>ks. retain_counts lib self training label_logits force_sample_probs num_classes = Inr ks"
    and "label_logits \<noteq> []"
proof -
  show "\<exists>ks. retain_counts lib self training label_logits force_sample_probs num_classes = Inr ks"
    using assms(1) by (auto simp: forward_def selected_def Let_def split: sum.splits)
  have "length (label_prob lib training label_logits force_sample_probs) = length label_logits"
    using assms(2) by (rule length_label_prob[OF refl])
  then show "label_logits \<noteq> []"
    using assms(1)
    by (auto simp: forward_def selected_eq Let_def paddle_concat_def split: sum.splits if_splits)
qed

subsection \<open>The sort\<close>

lemma set_argsort [simp]: "set (argsort_descending lib row) = {0..<length row}"
  by (simp add: argsort_descending_def)

lemma length_argsort [simp]: "length (argsort_descending lib row) = length row"
  by (simp add: argsort_descending_def)

lemma distinct_argsort [simp]: "distinct (argsort_descending lib row)"
  by (simp add: argsort_descending_def)


text \<open>The parameter covers every sort: any arrangement of the indices by decreasing value is
  the result for some ranking of the equal elements.\<close>

lemma argsort_descending_any:
  assumes "distinct r" "set r = {0..<length row}" "sorted (map (\<lambda>i. - (row ! i)) r)"
  shows "\<exists>lib. argsort_descending lib row = r"
proof -
  have len: "length r = length row"
    using assms(1,2) by (metis card_atLeastLessThan diff_zero distinct_card)
  define t where "t = inv_into {..<length r} ((!) r)"
  have inj: "inj_on ((!) r) {..<length r}"
    using assms(1) by (simp add: inj_on_nth)
  have tk: "t (r ! k) = k" if "k < length r" for k
    using that inj by (simp add: t_def)
  have mt: "map t r = [0..<length r]"
    by (rule nth_equalityI) (simp_all add: tk)
  have "map t (sort_key t [0..<length row]) = map t r"
  proof (rule sorted_distinct_set_unique)
    show "sorted (map t (sort_key t [0..<length row]))" by simp
    show "sorted (map t r)" by (simp add: mt)
    show "distinct (map t r)" by (simp add: mt)
    have "inj_on t {0..<length row}"
      unfolding assms(2)[symmetric]
      by (metis distinct_map distinct_upt mt)
    then show "distinct (map t (sort_key t [0..<length row]))"
      by (simp add: distinct_map)
    show "set (map t (sort_key t [0..<length row])) = set (map t r)"
      by (simp add: assms(2))
  qed
  moreover have "inj_on t (set (sort_key t [0..<length row]) \<union> set r)"
    unfolding set_sort assms(2) Un_absorb set_upt
    unfolding assms(2)[symmetric]
    by (metis distinct_map distinct_upt mt)
  ultimately have "sort_key t [0..<length row] = r"
    by (simp add: inj_on_map_eq_map)
  then have "argsort_descending \<lparr>F_sigmoid = id, argsort_ties = (\<lambda>row. t)\<rparr> row = r"
    using assms(3) by (simp add: argsort_descending_def sort_key_id_if_sorted)
  then show ?thesis by blast
qed



lemma slice_to_take:
  "slice_to xs n = take (if n \<ge> 0 then nat n else nat (int (length xs) + n)) xs"
  by (simp add: slice_to_def)

lemma sort_argsort_all: "sort (argsort_descending lib row) = [0..<length row]"
  by (rule sorted_distinct_set_unique) simp_all

lemma sorted_concat_replicate: "sorted (concat (map (\<lambda>b. replicate (f b) b) [0..<B]))"
  by (induction B) (auto simp: sorted_append)

lemma cls_idx_props:
  assumes "retain_counts lib self training label_logits force_sample_probs num_classes = Inr ks"
      and "shape2 B C label_logits"
      and "\<forall>f. force_sample_probs = Some f \<longrightarrow> shape2 B C f"
      and "b < B"
  shows "sorted_wrt (<) (cls_idx lib self training label_logits force_sample_probs num_classes ! b)"
    and "set (cls_idx lib self training label_logits force_sample_probs num_classes ! b) \<subseteq> {0..<C}"
    and "0 \<le> ks ! b \<Longrightarrow>
           length (cls_idx lib self training label_logits force_sample_probs num_classes ! b) =
             min (nat (ks ! b)) C"
proof -
  have l: "length (label_prob lib training label_logits force_sample_probs) = B"
    using assms(2,3) by (intro length_label_prob) (auto simp: shape2_def)
  have r: "length (label_prob lib training label_logits force_sample_probs ! b) = C"
    using assms(2-4) by (rule label_prob_row_length)
  note c = cls_idx_nth[OF assms(1) l assms(4)]
  show "sorted_wrt (<) (cls_idx lib self training label_logits force_sample_probs num_classes ! b)"
    unfolding c by (simp add: strict_sorted_iff slice_to_take)
  show "set (cls_idx lib self training label_logits force_sample_probs num_classes ! b) \<subseteq> {0..<C}"
    unfolding c slice_to_take
    using set_take_subset[of _ "argsort_descending lib
        (label_prob lib training label_logits force_sample_probs ! b)"] r
    by (simp only: set_sort set_argsort)
  show "length (cls_idx lib self training label_logits force_sample_probs num_classes ! b) =
             min (nat (ks ! b)) C" if "0 \<le> ks ! b"
    unfolding c using that by (simp add: slice_to_def r)
qed

lemmas eval_defs = forward_def selected_def retain_counts_def label_prob_def
  min_classes_def max_classes_def class_thr_def num_above_thr_def clip_def clip_max_def
  where_gt_def where_lt_def where_forced_def argsort_descending_def slice_to_def
  paddle_concat_def upt_rec bs_idx_def cls_idx_def

subsection \<open>The retain count and its bounds\<close>

text \<open>
  Claim C1, as stated, holds for no configuration whose minimum is above its maximum. With
  minimum 3, maximum 1 and \<open>num_classes = [4]\<close>, an image with four classes at the
  threshold gets the retain count 1, below its minimum 3.
\<close>

theorem retain_count_below_minimum:
  "retain_counts exact_paddle inverted_policy True [[0, 0, 0, 0]] None (Some [4]) = Inr [1]
   \<and> bound_at (min_classes inverted_policy True (Some [4])) 0 = 3
   \<and> bound_at (max_classes inverted_policy True (Some [4])) 0 = 1"
  by (simp add: eval_defs inverted_policy_def)

text \<open>
  Claim C1, amended. For a \<open>(B, C)\<close> logit tensor, in training and in evaluation mode, with
  or without \<open>num_classes\<close> (and with or without forced probabilities), when the configured
  minimum of the mode does not exceed its configured maximum (both as the 64-bit integers
  that the tensor operations read): line 50 does not raise, and
  the retain count \<open>k\<^sub>b\<close> of every image lies between \<open>min\<^sub>b\<close> and \<open>max\<^sub>b\<close>, which are the
  configured minimum and maximum of the mode, each lowered to the image's \<open>num_classes\<close>
  when that is given.
\<close>

theorem retain_count_within_bounds:
  assumes "shape2 B C label_logits"
      and "\<forall>f. force_sample_probs = Some f \<longrightarrow> shape2 B C f"
      and "\<forall>nc. num_classes = Some nc \<longrightarrow> length nc = B"
      and "conf_min self training \<le> conf_max self training"
      and "b < B"
  shows "\<exists>ks. retain_counts lib self training label_logits force_sample_probs num_classes = Inr ks
         \<and> length ks = B
         \<and> bound_at (min_classes self training num_classes) b \<le> ks ! b
         \<and> ks ! b \<le> bound_at (max_classes self training num_classes) b
         \<and> bound_at (min_classes self training num_classes) b =
             (case num_classes of
                None \<Rightarrow> conf_min self training
              | Some nc \<Rightarrow> min (nc ! b) (conf_min self training))
         \<and> bound_at (max_classes self training num_classes) b =
             (case num_classes of
                None \<Rightarrow> conf_max self training
              | Some nc \<Rightarrow> min (nc ! b) (conf_max self training))"
proof -
  have l: "length label_logits = B" "\<forall>f. force_sample_probs = Some f \<longrightarrow> length f = B"
    using assms(1,2) by (auto simp: shape2_def)
  have n: "\<forall>nc. num_classes = Some nc \<longrightarrow> b < length nc"
    using assms(3,5) by simp
  obtain ks where
    ks: "retain_counts lib self training label_logits force_sample_probs num_classes = Inr ks"
    using retain_counts_raises[of lib self training label_logits force_sample_probs num_classes]
      assms(4)
    by (cases "retain_counts lib self training label_logits force_sample_probs num_classes") auto
  note k = retain_counts_nth[OF ks l assms(3)]
  have "bound_at (min_classes self training num_classes) b \<le> ks ! b
      \<and> ks ! b \<le> bound_at (max_classes self training num_classes) b"
    using assms(4)
    unfolding k(2)[OF assms(5)] bound_at_min_classes[OF n] bound_at_max_classes[OF n]
    by (cases num_classes) (auto simp: Let_def)
  with ks k(1) bound_at_min_classes[OF n] bound_at_max_classes[OF n] show ?thesis
    by blast
qed

theorem retain_count_within_bounds_witness:
  "shape2 1 2 [[0, 0 :: real]]
   \<and> conf_min scenario_policy False \<le> conf_max scenario_policy False
   \<and> retain_counts exact_paddle scenario_policy False [[0, 0]] None (Some [2]) = Inr [2]
   \<and> bound_at (min_classes scenario_policy False (Some [2])) 0 = 1
   \<and> bound_at (max_classes scenario_policy False (Some [2])) 0 = 2"
  using retain_count_within_bounds[where B = 1 and C = 2 and label_logits = "[[0, 0]]"
      and force_sample_probs = None and num_classes = "Some [2]" and self = scenario_policy
      and b = 0 and training = False and lib = exact_paddle]
  by (simp add: shape2_def scenario_policy_def eval_defs conf_min_def conf_max_def)

subsection \<open>The shape of the two index arrays\<close>

text \<open>
  Claim C2, as stated, asks for exactly \<open>k\<^sub>b\<close> entries per image. The slice
  \<^verbatim>\<open>sorted_idx[:n_train]\<close> cannot give more entries than there are classes: with a
  configured minimum of three and two classes the retain count is 3 and the image gets 2
  entries.
\<close>

theorem retain_count_exceeds_entries:
  "retain_counts exact_paddle wide_policy False [[0, 0]] None None = Inr [3]
   \<and> forward exact_paddle wide_policy False [[0, 0]] None None = Inr ([0, 0], [0, 1])"
  by (simp add: eval_defs wide_policy_def)

text \<open>
  Claim C2, amended. The two arrays that the call returns are the concatenations of
  per-image lists; within each image \<open>b\<close> the class indices are strictly increasing and lie
  in \<open>{0..<C}\<close>, and there are \<open>min k\<^sub>b C\<close> of them for a retain count \<open>k\<^sub>b \<ge> 0\<close> (so
  exactly \<open>k\<^sub>b\<close> when \<open>k\<^sub>b \<le> C\<close>); the batch indices of image \<open>b\<close> are as many copies of
  \<open>b\<close>, so the batch index array is non-decreasing with every image in one block; both
  arrays have the same length, which is the sum of \<open>min k\<^sub>b C\<close> over the images when no
  retain count is negative.
\<close>

theorem selection_arrays_structure:
  assumes "shape2 B C label_logits"
      and "\<forall>f. force_sample_probs = Some f \<longrightarrow> shape2 B C f"
      and "\<forall>nc. num_classes = Some nc \<longrightarrow> length nc = B"
      and "forward lib self training label_logits force_sample_probs num_classes =
             Inr (batch_index, class_index)"
  shows "\<exists>ks. retain_counts lib self training label_logits force_sample_probs num_classes = Inr ks
       \<and> length ks = B
       \<and> length (cls_idx lib self training label_logits force_sample_probs num_classes) = B
       \<and> class_index =
           concat (cls_idx lib self training label_logits force_sample_probs num_classes)
       \<and> batch_index =
           concat (map (\<lambda>b. replicate
                    (length (cls_idx lib self training label_logits force_sample_probs
                               num_classes ! b)) b) [0..<B])
       \<and> (\<forall>b<B.
             sorted_wrt (<)
               (cls_idx lib self training label_logits force_sample_probs num_classes ! b)
           \<and> set (cls_idx lib self training label_logits force_sample_probs num_classes ! b)
               \<subseteq> {0..<C}
           \<and> (0 \<le> ks ! b \<longrightarrow>
                length (cls_idx lib self training label_logits force_sample_probs
                          num_classes ! b) = min (nat (ks ! b)) C))
       \<and> sorted batch_index
       \<and> length batch_index = length class_index
       \<and> ((\<forall>b<B. 0 \<le> ks ! b) \<longrightarrow>
            length class_index = (\<Sum>b = 0..<B. min (nat (ks ! b)) C))"
proof -
  let ?bs = "bs_idx lib self training label_logits force_sample_probs num_classes"
  let ?cs = "cls_idx lib self training label_logits force_sample_probs num_classes"
  have len: "length label_logits = B"
    "\<forall>f. force_sample_probs = Some f \<longrightarrow> length f = length label_logits"
    "\<forall>f. force_sample_probs = Some f \<longrightarrow> length f = B"
    using assms(1,2) by (auto simp: shape2_def)
  from forward_returnsD[OF assms(4) len(2)] obtain ks where
    ks: "retain_counts lib self training label_logits force_sample_probs num_classes = Inr ks"
    and ne: "label_logits \<noteq> []"
    by blast
  have lk: "length ks = B"
    using ks len(1,3) assms(3) by (rule retain_counts_nth(1))
  have l: "length (label_prob lib training label_logits force_sample_probs) = B"
    using len(1,3) by (rule length_label_prob)
  have fw: "batch_index = concat ?bs" "class_index = concat ?cs"
    using forward_eq[OF ks ne len(2)] assms(4) by simp_all
  have lb: "length ?bs = B" and lc: "length ?cs = B"
    using length_idx[OF ks l] by simp_all
  have per: "\<forall>b<B. sorted_wrt (<) (?cs ! b) \<and> set (?cs ! b) \<subseteq> {0..<C}
               \<and> (0 \<le> ks ! b \<longrightarrow> length (?cs ! b) = min (nat (ks ! b)) C)"
    using cls_idx_props[OF ks assms(1,2)] by blast
  have bs: "?bs = map (\<lambda>b. replicate (length (?cs ! b)) b) [0..<B]"
    using lb bs_idx_nth[OF ks l] by (intro nth_equalityI) simp_all
  have s: "sorted batch_index"
    unfolding fw(1) by (subst bs) (rule sorted_concat_replicate)
  have "map length ?bs = map length ?cs"
    using lb lc bs_idx_nth[OF ks l] by (intro nth_equalityI) simp_all
  then have eq: "length batch_index = length class_index"
    unfolding fw by (simp only: length_concat)
  have tot: "length class_index = (\<Sum>b = 0..<B. min (nat (ks ! b)) C)" if "\<forall>b<B. 0 \<le> ks ! b"
  proof -
    have "map length ?cs = map (\<lambda>b. min (nat (ks ! b)) C) [0..<B]"
      using lc per that by (intro nth_equalityI) simp_all
    then show ?thesis
      unfolding fw(2) by (simp only: length_concat interv_sum_list_conv_sum_set_nat set_upt)
  qed
  from ks lk lc fw(2) fw(1)[unfolded bs] per s eq tot show ?thesis
    by blast
qed

theorem selection_arrays_structure_witness:
  "shape2 1 2 [[0, 0 :: real]]
   \<and> forward exact_paddle wide_policy False [[0, 0]] None None = Inr ([0, 0], [0, 1])
   \<and> retain_counts exact_paddle wide_policy False [[0, 0]] None None = Inr [3]
   \<and> length (cls_idx exact_paddle wide_policy False [[0, 0]] None None ! 0) = min (nat 3) 2"
proof -
  have run: "forward exact_paddle wide_policy False [[0, 0]] None None = Inr ([0, 0], [0, 1])"
    by (simp add: eval_defs wide_policy_def)
  have sh: "shape2 1 2 [[0, 0 :: real]]"
    by (simp add: shape2_def)
  from selection_arrays_structure[OF sh _ _ run] show ?thesis
    using run sh by (auto simp: eval_defs wide_policy_def)
qed

subsection \<open>Ranking\<close>





subsection \<open>Which classes are retained\<close>




subsection \<open>Forced probabilities\<close>

text \<open>
  Claim C4. In training mode with forced probabilities of the shape of the logits, the
  probability the policy works with at image \<open>b\<close>, class \<open>c\<close> (entry \<open>(b, c)\<close> of
  \<open>label_prob\<close>, which both the count above the threshold and the ranking read) is the forced
  value where that is at least zero and the sigmoid of the logit where it is negative.
\<close>

theorem forced_probability_overrides:
  assumes "shape2 B C label_logits" "shape2 B C f" "b < B" "c < C"
  shows "label_prob lib True label_logits (Some f) ! b ! c =
           (if f ! b ! c \<ge> 0 then f ! b ! c else F_sigmoid lib (label_logits ! b ! c))"
  using assms by (simp add: label_prob_def where_forced_def shape2_def list_all_length)

theorem forced_probability_overrides_witness:
  "shape2 1 2 [[0, 0 :: real]] \<and> shape2 1 2 [[7/10, - 1 :: real]]
   \<and> label_prob exact_paddle True [[0, 0]] (Some [[7/10, - 1]]) ! 0 ! 0 = 7/10
   \<and> label_prob exact_paddle True [[0, 0]] (Some [[7/10, - 1]]) ! 0 ! 1 = 1/2"
  using forced_probability_overrides[where B = 1 and C = 2 and label_logits = "[[0, 0]]"
      and f = "[[7/10, - 1]]" and b = 0 and c = 0 and lib = exact_paddle]
    forced_probability_overrides[where B = 1 and C = 2 and label_logits = "[[0, 0]]"
      and f = "[[7/10, - 1]]" and b = 0 and c = 1 and lib = exact_paddle]
  by (simp add: shape2_def)

text \<open>
  Claim C9. In evaluation mode the result of \<^verbatim>\<open>RetentionPolicy.forward\<close> is the same
  for any two values of \<open>force_sample_probs\<close>, \<open>None\<close> included. In training mode they do
  count: on the same logits, two forced tensors give two different selections.
\<close>

theorem eval_ignores_force_sample_probs:
  "forward lib self False label_logits force1 num_classes
     = forward lib self False label_logits force2 num_classes
   \<and> forward exact_paddle scenario_policy True [[0, 0]] (Some [[1, 0]]) None = Inr ([0], [0])
   \<and> forward exact_paddle scenario_policy True [[0, 0]] (Some [[0, 1]]) None = Inr ([0], [1])"
  by (simp add: forward_def selected_def retain_counts_def label_prob_def scenario_policy_def
      min_classes_def max_classes_def class_thr_def num_above_thr_def clip_def where_forced_def
      argsort_descending_def slice_to_def paddle_concat_def upt_rec)

lemma retain_counts_fixed:
  assumes "length label_logits = B"
      and "\<forall>f. force_sample_probs = Some f \<longrightarrow> length f = B"
      and "\<forall>nc. num_classes = Some nc \<longrightarrow> length nc = B"
      and "b < B"
      and "bound_at (min_classes self training num_classes) b = v"
      and "bound_at (max_classes self training num_classes) b = v"
  shows "\<exists>ks. retain_counts lib self training label_logits force_sample_probs num_classes = Inr ks
           \<and> ks ! b = v"
proof -
  have n: "\<forall>nc. num_classes = Some nc \<longrightarrow> b < length nc"
    using assms(3,4) by simp
  note mn = assms(5)[unfolded bound_at_min_classes[OF n]]
  note mx = assms(6)[unfolded bound_at_max_classes[OF n]]
  obtain ks where
    ks: "retain_counts lib self training label_logits force_sample_probs num_classes = Inr ks"
    using retain_counts_raises[of lib self training label_logits force_sample_probs num_classes]
      mn mx
    by (cases "retain_counts lib self training label_logits force_sample_probs num_classes") auto
  have "ks ! b = v"
    using mn mx unfolding retain_counts_nth(2)[OF ks assms(1-3) assms(4)]
    by (cases num_classes) (auto simp: Let_def)
  with ks show ?thesis by blast
qed

subsection \<open>Nothing retained, everything retained\<close>

text \<open>
  Claim C6. For a \<open>(B, C)\<close> logit tensor with \<open>B > 0\<close>: an image whose effective minimum
  and maximum are both 0 gets empty index arrays, and when that holds for every image the
  call returns two empty arrays; an image whose effective minimum and maximum are both \<open>C\<close>
  gets all class indices \<open>[0..<C]\<close> in increasing order, and when that holds for every
  image the call returns them for every image of the batch.
\<close>

theorem retention_extremes:
  assumes "shape2 B C label_logits"
      and "\<forall>f. force_sample_probs = Some f \<longrightarrow> shape2 B C f"
      and "\<forall>nc. num_classes = Some nc \<longrightarrow> length nc = B"
      and "0 < B"
  shows "(\<forall>b<B. bound_at (min_classes self training num_classes) b = 0
               \<and> bound_at (max_classes self training num_classes) b = 0 \<longrightarrow>
             cls_idx lib self training label_logits force_sample_probs num_classes ! b = []
           \<and> bs_idx lib self training label_logits force_sample_probs num_classes ! b = [])
       \<and> ((\<forall>b<B. bound_at (min_classes self training num_classes) b = 0
               \<and> bound_at (max_classes self training num_classes) b = 0) \<longrightarrow>
             forward lib self training label_logits force_sample_probs num_classes = Inr ([], []))
       \<and> (\<forall>b<B. bound_at (min_classes self training num_classes) b = int C
               \<and> bound_at (max_classes self training num_classes) b = int C \<longrightarrow>
             cls_idx lib self training label_logits force_sample_probs num_classes ! b = [0..<C]
           \<and> bs_idx lib self training label_logits force_sample_probs num_classes ! b
               = replicate C b)
       \<and> ((\<forall>b<B. bound_at (min_classes self training num_classes) b = int C
               \<and> bound_at (max_classes self training num_classes) b = int C) \<longrightarrow>
             forward lib self training label_logits force_sample_probs num_classes =
               Inr (concat (map (\<lambda>b. replicate C b) [0..<B]), concat (replicate B [0..<C])))"
proof -
  let ?bs = "bs_idx lib self training label_logits force_sample_probs num_classes"
  let ?cs = "cls_idx lib self training label_logits force_sample_probs num_classes"
  let ?mn = "\<lambda>b. bound_at (min_classes self training num_classes) b"
  let ?mx = "\<lambda>b. bound_at (max_classes self training num_classes) b"
  have len: "length label_logits = B" "\<forall>f. force_sample_probs = Some f \<longrightarrow> length f = B"
    using assms(1,2) by (auto simp: shape2_def)
  have len': "label_logits \<noteq> []"
    "\<forall>f. force_sample_probs = Some f \<longrightarrow> length f = length label_logits"
    using len assms(4) by auto
  have l: "length (label_prob lib training label_logits force_sample_probs) = B"
    using len by (rule length_label_prob)
  have zero: "?cs ! b = [] \<and> ?bs ! b = []" if b: "b < B" and m: "?mn b = 0" "?mx b = 0" for b
  proof -
    obtain ks where
      ks: "retain_counts lib self training label_logits force_sample_probs num_classes = Inr ks"
      and k: "ks ! b = 0"
      using retain_counts_fixed[OF len assms(3) b m] by blast
    have "?cs ! b = []"
      by (simp add: cls_idx_nth[OF ks l b] slice_to_def k)
    then show ?thesis
      by (simp add: bs_idx_nth[OF ks l b])
  qed
  have full: "?cs ! b = [0..<C] \<and> ?bs ! b = replicate C b"
    if b: "b < B" and m: "?mn b = int C" "?mx b = int C" for b
  proof -
    have r: "length (label_prob lib training label_logits force_sample_probs ! b) = C"
      using assms(1,2) b by (rule label_prob_row_length)
    obtain ks where
      ks: "retain_counts lib self training label_logits force_sample_probs num_classes = Inr ks"
      and k: "ks ! b = int C"
      using retain_counts_fixed[OF len assms(3) b m] by blast
    have "?cs ! b =
        sort (argsort_descending lib (label_prob lib training label_logits force_sample_probs ! b))"
      by (simp add: cls_idx_nth[OF ks l b] slice_to_def r k)
    then have "?cs ! b = [0..<C]"
      by (simp add: sort_argsort_all r)
    then show ?thesis
      by (simp add: bs_idx_nth[OF ks l b])
  qed
  have ret: "\<exists>ks. retain_counts lib self training label_logits force_sample_probs num_classes
               = Inr ks" if "\<forall>b<B. ?mn b = v \<and> ?mx b = v" for v
    using retain_counts_fixed[OF len assms(3), of 0 self training v] that assms(4) by blast
  have allzero: "forward lib self training label_logits force_sample_probs num_classes
                   = Inr ([], [])"
    if a: "\<forall>b<B. ?mn b = 0 \<and> ?mx b = 0"
  proof -
    obtain ks where
      ks: "retain_counts lib self training label_logits force_sample_probs num_classes = Inr ks"
      using ret[OF a] by blast
    have "?cs = replicate B []" "?bs = replicate B []"
      using a zero length_idx[OF ks l] by (auto intro!: nth_equalityI)
    then show ?thesis
      by (simp add: forward_eq[OF ks len'])
  qed
  have allfull: "forward lib self training label_logits force_sample_probs num_classes =
               Inr (concat (map (\<lambda>b. replicate C b) [0..<B]), concat (replicate B [0..<C]))"
    if a: "\<forall>b<B. ?mn b = int C \<and> ?mx b = int C"
  proof -
    obtain ks where
      ks: "retain_counts lib self training label_logits force_sample_probs num_classes = Inr ks"
      using ret[OF a] by blast
    have "?cs = replicate B [0..<C]" "?bs = map (\<lambda>b. replicate C b) [0..<B]"
      using a full length_idx[OF ks l] by (auto intro!: nth_equalityI)
    then show ?thesis
      by (simp add: forward_eq[OF ks len'])
  qed
  from zero full allzero allfull show ?thesis by blast
qed

theorem retention_extremes_witness:
  "shape2 1 2 [[0, ln 9]]
   \<and> bound_at (min_classes empty_policy False None) 0 = 0
   \<and> bound_at (max_classes empty_policy False None) 0 = 0
   \<and> forward exact_paddle empty_policy False [[0, ln 9]] None None = Inr ([], [])
   \<and> bound_at (min_classes full_policy False None) 0 = 2
   \<and> bound_at (max_classes full_policy False None) 0 = 2
   \<and> forward exact_paddle full_policy False [[0, ln 9]] None None = Inr ([0, 0], [0, 1])"
  using retention_extremes[where B = 1 and C = 2 and label_logits = "[[0, ln 9]]"
      and force_sample_probs = None and num_classes = None and self = empty_policy
      and training = False and lib = exact_paddle]
    retention_extremes[where B = 1 and C = 2 and label_logits = "[[0, ln 9]]"
      and force_sample_probs = None and num_classes = None and self = full_policy
      and training = False and lib = exact_paddle]
  by (simp add: shape2_def min_classes_def max_classes_def empty_policy_def full_policy_def upt_rec
      eval_nat_numeral)

subsection \<open>The layer loop\<close>

lemma refine_loop_inv:
  "refine_loop layers classifier srcs origin (t, ll, ols, ofs) = (t', ll', ols', ofs') \<Longrightarrow>
   ll = (if ols = [] then None else Some (last ols)) \<Longrightarrow>
   ll' = (if ols' = [] then None else Some (last ols')) \<and> length ols' = length ols + length layers"
proof (induction layers arbitrary: t ll ols ofs)
  case Nil
  then show ?case by auto
next
  case (Cons layer rest)
  from Cons.prems(1) have
    "refine_loop rest classifier srcs origin
       (layer t srcs, Some (classifier (layer t srcs) origin),
        ols @ [classifier (layer t srcs) origin], ofs @ [layer t srcs]) = (t', ll', ols', ofs')"
    by (simp add: Let_def)
  from Cons.IH[OF this] show ?case by simp
qed

lemma refine_inv:
  assumes "refine self srcs = (t, ll, ols, ofs)"
  shows "ll = (if ols = [] then None else Some (last ols))"
    and "length ols = length (pi_prompt_blocks self)"
  using refine_loop_inv[OF assms[unfolded refine_def]] by simp_all

lemma py_index_minus2:
  "py_index xs (- 2) = (if 2 \<le> length xs then Inr (xs ! (length xs - 2)) else Inl IndexError)"
proof (cases "2 \<le> length xs")
  case True
  then have "nat (int (length xs) + - 2) = length xs - 2" by linarith
  with True show ?thesis by (simp add: py_index_def)
next
  case False
  then show ?thesis by (simp add: py_index_def)
qed

lemma two_layer_refine:
  "refine two_layer_indicator () = (2, Some [[0, ln 9]], [[[ln 9, 0]], [[0, ln 9]]], [1, 2])"
  by (simp add: refine_def two_layer_indicator_def Let_def)

lemma top1_last: "forward exact_paddle top1_policy False [[0, ln 9]] None (Some [2]) = Inr ([0], [1])"
  by (simp add: eval_defs top1_policy_def exact_sigmoid_ln)

lemma top1_main: "forward exact_paddle top1_policy False [[ln 9, 0]] None (Some [2]) = Inr ([0], [0])"
  by (simp add: eval_defs top1_policy_def exact_sigmoid_ln)

lemma two_layer_run:
  "pi_forward exact_paddle two_layer_indicator () (Some two_layer_targets) =
     Inr (\<lparr>out_tgt_class = 2, out_cls_label_logits = [[ln 9, 0]], out_cls_output_feats = 2,
           out_bs_idx = Some [0], out_cls_idx = Some [1]\<rparr>,
          [[[ln 9, 0]]])"
proof -
  have s: "pi_select_levels two_layer_indicator () = Inr ()"
    "pi_retention_policy two_layer_indicator = Some top1_policy"
    "pi_training two_layer_indicator = False"
    "pi_gather two_layer_indicator = (\<lambda>t bs cs. t)"
    "pi_criterion two_layer_indicator = (\<lambda>outs aux ts. aux)"
    by (simp_all add: two_layer_indicator_def)
  have n: "concat_num_classes two_layer_targets = Inr [2]"
    by (simp add: concat_num_classes_def lookup_all_def two_layer_targets_def paddle_concat_def)
  show ?thesis
    by (simp add: pi_forward_def s two_layer_refine py_index_def select_classes_def
        stack_force_sample_probs_def n top1_last aux_outputs_def)
qed

subsection \<open>A call without targets fails\<close>

text \<open>
  Claim C8. Whatever the features, the mask and the configuration of the indicator,
  \<^verbatim>\<open>PromptIndicator.forward\<close> called with \<^verbatim>\<open>targets = None\<close> raises an error and
  returns no outputs.
\<close>

theorem forward_without_targets_raises:
  "\<exists>e. pi_forward lib self srcs None = Inl e"
  by (simp add: pi_forward_def Let_def split: sum.split prod.split)

subsection \<open>Which layer feeds what\<close>

text \<open>
  Claim C10. On a call that succeeds with retention enabled, the indicator has at least two
  layers, the main output \<^verbatim>\<open>cls_label_logits\<close> is the logits of the second-to-last
  layer, and the index arrays of the outputs are what the retention policy returns on the
  logits of the last layer. The two can differ: on the two-layer indicator the main logits
  prefer class 0 while the class retained is class 1, and the policy run on the main logits
  would have retained class 0.
\<close>

theorem retention_reads_last_layer:
  assumes "pi_forward lib self srcs (Some ts) = Inr (outs, loss)"
      and "pi_select_levels self srcs = Inr srcs'"
      and "refine self srcs' = (tgt_class, label_logits, output_label_logits, output_feats)"
      and "pi_retention_policy self = Some policy"
  shows "length output_label_logits = length (pi_prompt_blocks self)
       \<and> 2 \<le> length (pi_prompt_blocks self)
       \<and> out_cls_label_logits outs = output_label_logits ! (length (pi_prompt_blocks self) - 2)
       \<and> (\<exists>force nc bs cls.
             stack_force_sample_probs (pi_training self) ts = Inr force
           \<and> concat_num_classes ts = Inr nc
           \<and> forward lib policy (pi_training self)
                (output_label_logits ! (length (pi_prompt_blocks self) - 1)) force (Some nc)
               = Inr (bs, cls)
           \<and> out_bs_idx outs = Some bs \<and> out_cls_idx outs = Some cls)
       \<and> (\<exists>outs' loss'.
             pi_forward exact_paddle two_layer_indicator () (Some two_layer_targets)
               = Inr (outs', loss')
           \<and> out_cls_label_logits outs' = [[ln 9, 0]]
           \<and> out_cls_idx outs' = Some [1]
           \<and> forward exact_paddle top1_policy False (out_cls_label_logits outs') None (Some [2])
               = Inr ([0], [0]))"
proof -
  note inv = refine_inv[OF assms(3)]
  have n2: "2 \<le> length output_label_logits"
    using assms(1) by (auto simp: pi_forward_def assms(2,3) py_index_minus2 split: if_splits)
  then have ll: "label_logits = Some (output_label_logits ! (length output_label_logits - 1))"
    using inv(1) by (auto simp: last_conv_nth)
  define outputs where "outputs = \<lparr>out_tgt_class = tgt_class,
      out_cls_label_logits = output_label_logits ! (length output_label_logits - 2),
      out_cls_output_feats = tgt_class, out_bs_idx = None, out_cls_idx = None\<rparr>"
  from assms(1) n2 obtain outputs' where
    sc: "select_classes lib self (Some ts) tgt_class label_logits outputs = Inr outputs'"
    and o: "outs = outputs'"
    by (auto simp: pi_forward_def assms(2,3) py_index_minus2 Let_def outputs_def
        split: sum.splits)
  from sc obtain force nc bs cls where
    f: "stack_force_sample_probs (pi_training self) ts = Inr force"
    and c: "concat_num_classes ts = Inr nc"
    and fw: "forward lib policy (pi_training self)
               (output_label_logits ! (length output_label_logits - 1)) force (Some nc)
             = Inr (bs, cls)"
    and o': "outputs' = outputs\<lparr>out_bs_idx := Some bs, out_cls_idx := Some cls,
                                 out_tgt_class := pi_gather self tgt_class bs cls\<rparr>"
    by (auto simp: select_classes_def assms(4) ll split: sum.splits prod.splits)
  have main: "out_cls_label_logits outs = output_label_logits ! (length output_label_logits - 2)"
    and idx: "out_bs_idx outs = Some bs" "out_cls_idx outs = Some cls"
    by (simp_all add: o o' outputs_def)
  have ex: "\<exists>outs' loss'.
             pi_forward exact_paddle two_layer_indicator () (Some two_layer_targets)
               = Inr (outs', loss')
           \<and> out_cls_label_logits outs' = [[ln 9, 0]]
           \<and> out_cls_idx outs' = Some [1]
           \<and> forward exact_paddle top1_policy False (out_cls_label_logits outs') None (Some [2])
               = Inr ([0], [0])"
    by (simp add: two_layer_run top1_main)
  from inv(2) n2 main f c fw idx ex show ?thesis
    by (metis (no_types, lifting))
qed

theorem retention_reads_last_layer_witness:
  "pi_forward exact_paddle two_layer_indicator () (Some two_layer_targets) =
     Inr (\<lparr>out_tgt_class = 2, out_cls_label_logits = [[ln 9, 0]], out_cls_output_feats = 2,
           out_bs_idx = Some [0], out_cls_idx = Some [1]\<rparr>,
          [[[ln 9, 0]]])
   \<and> refine two_layer_indicator () = (2, Some [[0, ln 9]], [[[ln 9, 0]], [[0, ln 9]]], [1, 2])
   \<and> forward exact_paddle top1_policy False ([[[ln 9, 0]], [[0, ln 9 :: real]]] ! 1) None
       (Some [2]) = Inr ([0], [1])"
  using retention_reads_last_layer[OF two_layer_run _ two_layer_refine,
      where policy = top1_policy]
    two_layer_run two_layer_refine
  by (simp add: two_layer_indicator_def stack_force_sample_probs_def concat_num_classes_def
      lookup_all_def two_layer_targets_def paddle_concat_def)

text \<open>
  Claim C5, on the two-layer indicator. The main output is the logits of the first
  (second-to-last) layer, and the auxiliary outputs handed to the criterion are
  \<^verbatim>\<open>output_label_logits[:-1]\<close>: every layer but the last, which here is that same
  first layer. The layer of the main output is in the auxiliary list, and the last layer is
  not.
\<close>

theorem aux_outputs_repeat_main_logits:
  "pi_forward exact_paddle two_layer_indicator () (Some two_layer_targets) =
     Inr (\<lparr>out_tgt_class = 2, out_cls_label_logits = [[ln 9, 0]], out_cls_output_feats = 2,
           out_bs_idx = Some [0], out_cls_idx = Some [1]\<rparr>,
          [[[ln 9, 0]]])
   \<and> py_index [[[ln 9, 0]], [[0, ln 9 :: real]]] (- 2) = Inr [[ln 9, 0]]
   \<and> aux_outputs [[[ln 9, 0]], [[0, ln 9]]] = [[[ln 9, 0]]]"
  by (simp add: two_layer_run py_index_def aux_outputs_def)

subsection \<open>Loading the class prompts\<close>

text \<open>
  Claim C7, at a path that ends in \<^verbatim>\<open>pth\<close>: the constructor reaches
  \<^verbatim>\<open>torch.load\<close> with \<^verbatim>\<open>torch\<close> unbound and raises, whatever the loader, the
  initialiser, the model dimension and the other settings are.
\<close>

theorem pth_prompts_raise_name_error:
  "init_class_prompts np_load normal d_model
     \<lparr>cp_init_vectors = Some ''class_prompts.pth'', cp_fix_class_prompts = fixed,
      cp_num_classes = n\<rparr> = Inl NameError"
  by (simp add: init_class_prompts_def truthy_def last3_def)

end
